theory Spec2Isabelle
  imports Main "HOL-Library.Sublist"
begin

section \<open>Strings\<close>

text \<open>
  The program is TypeScript; its strings are sequences of UTF-16 code units. The model
  uses \<^typ>\<open>string\<close>, whose characters are the 256 code units U+0000 to U+00FF, and
  gives the string operations of the source (\<open>trim\<close>, \<open>toLowerCase\<close>, \<open>includes\<close>,
  \<open>split\<close> on the regular expression \<open>/\d+\./\<close>) their meaning on that range.
\<close>

text \<open>The class \<open>\d\<close> of a regular expression: the ten digits U+0030 to U+0039.\<close>

definition isDigit :: "char \<Rightarrow> bool" where
  "isDigit c = (48 \<le> (of_char c :: nat) \<and> (of_char c :: nat) \<le> 57)"

text \<open>
  The characters \<open>trim\<close> removes (white space and line terminators): below U+0100 these
  are TAB, LF, VT, FF, CR, SPACE and NO-BREAK SPACE.
\<close>

definition isWhiteSpace :: "char \<Rightarrow> bool" where
  "isWhiteSpace c = ((of_char c :: nat) \<in> {9, 10, 11, 12, 13, 32, 160})"

definition trim :: "string \<Rightarrow> string" where
  "trim s = rev (dropWhile isWhiteSpace (rev (dropWhile isWhiteSpace s)))"

text \<open>
  \<open>toLowerCase\<close>: the upper-case letters below U+0100 are A to Z and U+00C0 to U+00DE
  without the multiplication sign U+00D7; each has bit 5 clear and its lower-case
  partner is the same code unit with bit 5 set (that is, plus 32).
\<close>

definition isUpperCase :: "char \<Rightarrow> bool" where
  "isUpperCase c =
     (let n = (of_char c :: nat)
      in (65 \<le> n \<and> n \<le> 90) \<or> (192 \<le> n \<and> n \<le> 222 \<and> n \<noteq> 215))"

definition toLowerCase_char :: "char \<Rightarrow> char" where
  "toLowerCase_char c =
     (if isUpperCase c
      then (case c of Char b0 b1 b2 b3 b4 b5 b6 b7 \<Rightarrow> Char b0 b1 b2 b3 b4 True b6 b7)
      else c)"

definition toLowerCase :: "string \<Rightarrow> string" where
  "toLowerCase s = map toLowerCase_char s"

text \<open>\<open>s.includes(t)\<close>: \<open>t\<close> occurs in \<open>s\<close> as a contiguous run.\<close>

fun includes_str :: "string \<Rightarrow> string \<Rightarrow> bool" where
  "includes_str [] t = (t = [])"
| "includes_str (c # cs) t = (prefix t (c # cs) \<or> includes_str cs t)"

text \<open>
  A template literal prints an absent value (\<open>undefined\<close>) as the nine letters of that
  word. An absent property is \<open>None\<close>.
\<close>

definition interpolate :: "string option \<Rightarrow> string" where
  "interpolate v = (case v of None \<Rightarrow> ''undefined'' | Some s \<Rightarrow> s)"

text \<open>A string is truthy when it is present and not empty.\<close>

definition truthy :: "string option \<Rightarrow> bool" where
  "truthy v = (case v of None \<Rightarrow> False | Some s \<Rightarrow> s \<noteq> [])"

text \<open>A number in a template literal: its decimal digits.\<close>

function decimal :: "nat \<Rightarrow> string" where
  "decimal n =
     (if n < 10 then [''0123456789'' ! n]
      else decimal (n div 10) @ [''0123456789'' ! (n mod 10)])"
  by pat_completeness auto
termination
  by (relation "measure (\<lambda>n. n)") auto

subsection \<open>Splitting on \<open>/\d+\./\<close>\<close>

text \<open>
  \<open>afterDigits s\<close> is entered after at least one digit has been read: it reads the rest
  of the run of digits and then wants a dot. The greedy \<open>\d+\<close> gives nothing back that
  helps, since every character it could give back is a digit and not a dot. The result
  is what follows the match.
\<close>

fun afterDigits :: "string \<Rightarrow> string option" where
  "afterDigits [] = None"
| "afterDigits (c # cs) =
     (if isDigit c then afterDigits cs
      else if c = CHR ''.'' then Some cs
      else None)"

text \<open>The expression matched at the very start of a string.\<close>

fun matchHere :: "string \<Rightarrow> string option" where
  "matchHere [] = None"
| "matchHere (c # cs) = (if isDigit c then afterDigits cs else None)"

lemma afterDigits_shorter: "afterDigits s = Some r \<Longrightarrow> length r < length s"
  by (induction s) (auto split: if_splits)

lemma matchHere_shorter: "matchHere s = Some r \<Longrightarrow> length r < length s"
  by (cases s) (auto split: if_splits dest: afterDigits_shorter)

text \<open>
  \<open>String.prototype.split\<close> with a regular expression walks the string from the left
  and tries the expression at each position. Where it matches, the piece collected so
  far is emitted and the walk goes on behind the match; where it does not, the
  character joins the piece. At the end the last piece is emitted, also when it is
  empty. The piece is kept reversed in \<open>acc\<close>. The expression never matches the empty
  string, so the empty input gives the one empty piece.
\<close>

function splitFrom :: "string \<Rightarrow> string \<Rightarrow> string list" where
  "splitFrom acc [] = [rev acc]"
| "splitFrom acc (c # cs) =
     (case matchHere (c # cs) of
        Some r \<Rightarrow> rev acc # splitFrom [] r
      | None \<Rightarrow> splitFrom (c # acc) cs)"
  by pat_completeness auto
termination
  by (relation "measure (\<lambda>(acc, s). length s)")
     (auto dest: matchHere_shorter simp del: matchHere.simps)

definition split :: "string \<Rightarrow> string list" where
  "split s = splitFrom [] s"

section \<open>The content proxy (\<open>supabase/functions/generate-content/index.ts\<close>)\<close>

text \<open>The seven properties the handler takes out of the request's JSON body.\<close>

record fields =
  cardName :: "string option"
  bankName :: "string option"
  rq_platform :: "string option"
  rq_audience :: "string option"
  rq_language :: "string option"
  rq_tone :: "string option"
  rq_customPrompt :: "string option"

text \<open>
  Every exception raised inside the handler's \<open>try\<close> is a value: the message the
  \<open>catch\<close> puts into the response.
\<close>

type_synonym 'a result = "string + 'a"

text \<open>
  The fallback text. \<open>audience.toLowerCase()\<close> raises a TypeError when the audience is
  absent.
\<close>

definition noToLowerCase :: string where
  "noToLowerCase = ''Cannot read properties of undefined (reading 'toLowerCase')''"

definition fallback :: "fields \<Rightarrow> string result" where
  "fallback f =
     (case rq_audience f of
        None \<Rightarrow> Inl noToLowerCase
      | Some a \<Rightarrow>
          Inr (interpolate (cardName f) @ '' from '' @ interpolate (bankName f)
               @ '' - Great choice for '' @ toLowerCase a @ ''!''))"

text \<open>The loop \<open>while (variations.length < 4) variations.push(...)\<close>.\<close>

function pad :: "fields \<Rightarrow> string list \<Rightarrow> string list result" where
  "pad f vs =
     (if length vs < 4
      then (case fallback f of Inl e \<Rightarrow> Inl e | Inr t \<Rightarrow> pad f (vs @ [t]))
      else Inr vs)"
  by pat_completeness auto
termination
  by (relation "measure (\<lambda>(f, vs). 4 - length vs)") auto

text \<open>
  The split/pad algorithm: split, keep the pieces that are not blank, trim them, take
  the first four, pad, and take the first four again (the \<open>slice(0, 4)\<close> of the
  response).
\<close>

definition segments :: "string \<Rightarrow> string list" where
  "segments generatedText =
     take 4 (map trim (filter (\<lambda>text. trim text \<noteq> []) (split generatedText)))"

definition variations :: "fields \<Rightarrow> string \<Rightarrow> string list result" where
  "variations f generatedText =
     (case pad f (segments generatedText) of
        Inl e \<Rightarrow> Inl e
      | Inr vs \<Rightarrow> Inr (take 4 vs))"

declare pad.simps [simp del] decimal.simps [simp del]

text \<open>
  The prompt sent to the generative API. The additional instruction is there when the
  custom prompt is truthy.
\<close>

definition prompt_of :: "fields \<Rightarrow> string" where
  "prompt_of f =
     ''Create 4 variations of content to promote the '' @ [CHR 0x22]
     @ interpolate (cardName f) @ [CHR 0x22] @ '' credit card from ''
     @ interpolate (bankName f) @ ''.'' @ [CHR 0x0A]
     @ ''Platform: '' @ interpolate (rq_platform f) @ [CHR 0x0A]
     @ ''Audience: '' @ interpolate (rq_audience f) @ [CHR 0x0A]
     @ ''Language: '' @ interpolate (rq_language f) @ [CHR 0x0A]
     @ ''Tone: '' @ interpolate (rq_tone f) @ [CHR 0x0A, CHR 0x0A]
     @ (if truthy (rq_customPrompt f)
        then ''Additional instruction: '' @ interpolate (rq_customPrompt f) else [])
     @ [CHR 0x0A, CHR 0x0A]
     @ ''The content should be platform-appropriate, concise, and persuasive. ''
     @ ''Return exactly 4 different variations, each on a new line, numbered 1-4.''"

text \<open>
  What the handler meets outside itself. Reading the request body either raises (the
  body is not JSON, or not an object) or gives the fields. The call of the generative
  API either raises (\<open>fetch\<close> rejects) or answers with a status; reading the text at
  \<open>candidates[0].content.parts[0].text\<close> of the answer either raises (the body is not
  JSON, or has no text there) or gives the text.
\<close>

datatype json_outcome = JsonThrows string | JsonBody fields

record request =
  http_method :: string
  json :: json_outcome

datatype answer_body = BodyThrows string | BodyText string

datatype answer = FetchThrows string | Answer nat answer_body

text \<open>\<open>response.ok\<close>: the status is in the range 200 to 299.\<close>

definition ok :: "nat \<Rightarrow> bool" where
  "ok st = (200 \<le> st \<and> st \<le> 299)"

datatype response_body = NoBody | ErrorBody string | VariationsBody "string list"

record response =
  status :: nat
  headers :: "(string \<times> string) list"
  body :: response_body

definition corsHeaders :: "(string \<times> string) list" where
  "corsHeaders =
     [(''Access-Control-Allow-Origin'', ''*''),
      (''Access-Control-Allow-Headers'',
       ''authorization, x-client-info, apikey, content-type'')]"

text \<open>
  The body of the \<open>try\<close> block. \<open>geminiApiKey\<close> is the value of the environment variable
  (\<open>None\<close> when it is not set); \<open>gemini\<close> is the generative API, a function of the key
  and the prompt, asked only where the handler reaches the \<open>fetch\<close>.
\<close>

definition handler ::
  "string option \<Rightarrow> (string \<Rightarrow> string \<Rightarrow> answer) \<Rightarrow> request \<Rightarrow> string list result" where
  "handler geminiApiKey gemini req =
     (case json req of
        JsonThrows e \<Rightarrow> Inl e
      | JsonBody f \<Rightarrow>
          if \<not> truthy geminiApiKey then Inl ''Gemini API key not configured''
          else
            (case gemini (interpolate geminiApiKey) (prompt_of f) of
               FetchThrows e \<Rightarrow> Inl e
             | Answer st b \<Rightarrow>
                 if \<not> ok st then Inl (''Gemini API error: '' @ decimal st)
                 else
                   (case b of
                      BodyThrows e \<Rightarrow> Inl e
                    | BodyText generatedText \<Rightarrow> variations f generatedText)))"

definition serve ::
  "string option \<Rightarrow> (string \<Rightarrow> string \<Rightarrow> answer) \<Rightarrow> request \<Rightarrow> response" where
  "serve geminiApiKey gemini req =
     (if http_method req = ''OPTIONS''
      then \<lparr>status = 200, headers = corsHeaders, body = NoBody\<rparr>
      else
        (case handler geminiApiKey gemini req of
           Inr vs \<Rightarrow>
             \<lparr>status = 200,
              headers = corsHeaders @ [(''Content-Type'', ''application/json'')],
              body = VariationsBody vs\<rparr>
         | Inl e \<Rightarrow>
             \<lparr>status = 500,
              headers = corsHeaders @ [(''Content-Type'', ''application/json'')],
              body = ErrorBody e\<rparr>))"

section \<open>The client (\<open>src/components/ContentGenerator.tsx\<close>)\<close>

subsection \<open>Data\<close>

text \<open>
  A card of the catalog's answer, as far as the client reads it. \<open>card_name\<close> and
  \<open>issuing_bank\<close> are read with \<open>?.\<close>, so either may be absent.
\<close>

record api_card =
  api_id :: string
  api_card_name :: "string option"
  issuing_bank :: "string option"
  api_slug :: "string option"
  api_description :: "string option"
  api_rewards_summary :: "string option"

text \<open>
  The interface \<open>CreditCard\<close>. Its name and bank are copied from the catalog's card
  and are absent where they were absent there.
\<close>

record CreditCard =
  card_id :: string
  card_name :: "string option"
  bank_name :: "string option"
  slug :: "string option"
  description :: "string option"
  rewards_summary :: "string option"

text \<open>
  Rows of the tables \<open>user_inputs\<close> and \<open>ai_outputs\<close> (\<open>integrations/supabase/types.ts\<close>),
  without the creation time, which the client neither writes nor reads.
\<close>

record user_input =
  in_id :: string
  in_card_id :: string
  in_platform :: string
  in_audience :: string
  in_language :: string
  in_tone :: string
  in_custom_prompt :: "string option"

record ai_output =
  out_id :: string
  input_id :: string
  variation_number :: nat
  content_variation :: string

record database =
  user_inputs :: "user_input list"
  ai_outputs :: "ai_output list"

text \<open>The component's state variables.\<close>

record ui_state =
  selectedCard :: "CreditCard option"
  cardSearch :: string
  searchResults :: "CreditCard list"
  isSearching :: bool
  platform :: string
  audience :: string
  language :: string
  tone :: string
  customPrompt :: string
  isGenerating :: bool
  generatedContent :: "ai_output list"

record world =
  ui :: ui_state
  db :: database

text \<open>
  What an operation does outside the component, in the order it does it: a notice shown
  to the user (title and description), the request to the catalog, an insert sent to
  one of the two tables (with the values sent), a write to the clipboard, and a call of
  an edge function by name. No operation of the client emits the last one; it is here
  so that its absence can be stated.
\<close>

datatype event =
    Toast string string
  | CatalogPost
  | InsertUserInput string string string string string "string option"
  | InsertAiOutput string nat string
  | ClipboardWrite string
  | FunctionInvoke string fields

text \<open>
  The outcomes of the calls. The catalog's answer raises (the request fails, or the body
  is not JSON of the expected shape) or gives \<open>data.data\<close>, an array of cards or
  nothing. An insert followed by \<open>select().single()\<close> gives the stored row, with the
  identifier the store generated, or an error.
\<close>

datatype catalog = CatalogThrows | CatalogData "api_card list option"

datatype insert_outcome = Inserted string | InsertError

subsection \<open>Card search\<close>

text \<open>
  The filter of \<open>searchCards\<close>: \<open>card.card_name?.toLowerCase().includes(query.toLowerCase())\<close>
  is \<open>undefined\<close>, hence false, where the name is absent; the same for the bank.
\<close>

definition fieldIncludes :: "string option \<Rightarrow> string \<Rightarrow> bool" where
  "fieldIncludes v query =
     (case v of
        None \<Rightarrow> False
      | Some s \<Rightarrow> includes_str (toLowerCase s) (toLowerCase query))"

definition cardMatches :: "string \<Rightarrow> api_card \<Rightarrow> bool" where
  "cardMatches query crd =
     (fieldIncludes (api_card_name crd) query \<or> fieldIncludes (issuing_bank crd) query)"

definition filteredCards :: "string \<Rightarrow> api_card list option \<Rightarrow> api_card list" where
  "filteredCards query d =
     (case d of
        None \<Rightarrow> []
      | Some cards \<Rightarrow> take 5 (filter (cardMatches query) cards))"

definition toCreditCard :: "api_card \<Rightarrow> CreditCard" where
  "toCreditCard crd =
     \<lparr>card_id = api_id crd,
      card_name = api_card_name crd,
      bank_name = issuing_bank crd,
      slug = api_slug crd,
      description = api_description crd,
      rewards_summary = api_rewards_summary crd\<rparr>"

definition searchCards :: "catalog \<Rightarrow> string \<Rightarrow> ui_state \<Rightarrow> ui_state \<times> event list" where
  "searchCards cat query s =
     (if trim query = [] then (s\<lparr>searchResults := []\<rparr>, [])
      else
        (case cat of
           CatalogThrows \<Rightarrow>
             (s\<lparr>isSearching := False\<rparr>,
              [CatalogPost,
               Toast ''Search failed'' ''Couldn't search cards. Please try again.''])
         | CatalogData d \<Rightarrow>
             (s\<lparr>searchResults := map toCreditCard (filteredCards query d),
                isSearching := False\<rparr>,
              [CatalogPost])))"

subsection \<open>Generation\<close>

text \<open>
  The four texts composed in \<open>generateContent\<close>. The two pictographs of the source
  (U+1F3AF and U+1F680) are beyond U+00FF; each is carried as the four bytes of its
  UTF-8 form. The local string \<open>prompt\<close> that the source builds before them is never
  read again and has no counterpart here.
\<close>

definition directHit :: string where
  "directHit = [CHR 0xF0, CHR 0x9F, CHR 0x8E, CHR 0xAF]"

definition rocket :: string where
  "rocket = [CHR 0xF0, CHR 0x9F, CHR 0x9A, CHR 0x80]"

definition mockContent :: "CreditCard \<Rightarrow> ui_state \<Rightarrow> string list" where
  "mockContent crd s =
     [directHit @ '' Exclusive '' @ interpolate (card_name crd)
        @ '' offer! Perfect for '' @ toLowerCase (audience s) @ ''. ''
        @ (if tone s = ''exciting'' then rocket else []),
      ''Looking for a great credit card? The '' @ interpolate (card_name crd)
        @ '' from '' @ interpolate (bank_name crd) @ '' is exactly what you need!'',
      (if tone s = ''friendly'' then ''Hey there!'' else ''Attention:'')
        @ '' Just discovered the amazing benefits of '' @ interpolate (card_name crd)
        @ ''. Worth checking out!'',
      interpolate (card_name crd)
        @ '' review: This card offers incredible value. Here's why it's perfect for your needs...'']"

text \<open>
  The insert into \<open>user_inputs\<close>, and the four inserts into \<open>ai_outputs\<close>.
  \<open>customPrompt || null\<close> stores no custom prompt for the empty string. The store adds
  the row of an insert that succeeds and nothing for one that fails.
\<close>

definition inputRequest :: "CreditCard \<Rightarrow> ui_state \<Rightarrow> event" where
  "inputRequest crd s =
     InsertUserInput (card_id crd) (platform s) (audience s) (language s) (tone s)
       (if customPrompt s = [] then None else Some (customPrompt s))"

definition inputRow :: "string \<Rightarrow> CreditCard \<Rightarrow> ui_state \<Rightarrow> user_input" where
  "inputRow rid crd s =
     \<lparr>in_id = rid, in_card_id = card_id crd, in_platform = platform s,
      in_audience = audience s, in_language = language s, in_tone = tone s,
      in_custom_prompt = (if customPrompt s = [] then None else Some (customPrompt s))\<rparr>"

text \<open>
  \<open>mockContent.map(async (content, index) => ...)\<close> starts all four inserts, with
  \<open>variation_number: index + 1\<close>; \<open>outputResult n\<close> is the outcome of the insert with
  variation number \<open>n\<close>. \<open>outputRows\<close> are the rows of the inserts that succeeded, in the
  order of the variation numbers (the order in which the store receives them is not
  fixed by the source).
\<close>

fun outputRequests :: "string \<Rightarrow> nat \<Rightarrow> string list \<Rightarrow> event list" where
  "outputRequests iid index [] = []"
| "outputRequests iid index (content # rest) =
     InsertAiOutput iid (index + 1) content # outputRequests iid (index + 1) rest"

fun outputRows ::
  "(nat \<Rightarrow> insert_outcome) \<Rightarrow> string \<Rightarrow> nat \<Rightarrow> string list \<Rightarrow> ai_output list" where
  "outputRows outputResult iid index [] = []"
| "outputRows outputResult iid index (content # rest) =
     (case outputResult (index + 1) of
        Inserted rid \<Rightarrow>
          \<lparr>out_id = rid, input_id = iid, variation_number = index + 1,
           content_variation = content\<rparr>
          # outputRows outputResult iid (index + 1) rest
      | InsertError \<Rightarrow> outputRows outputResult iid (index + 1) rest)"

text \<open>\<open>Promise.all\<close> fulfils when none of the four inserts has failed.\<close>

definition allInserted :: "(nat \<Rightarrow> insert_outcome) \<Rightarrow> nat \<Rightarrow> bool" where
  "allInserted outputResult n = (\<forall>k \<in> {1..n}. outputResult k \<noteq> InsertError)"

definition missingInformation :: event where
  "missingInformation = Toast ''Missing information'' ''Please fill in all required fields.''"

definition generationFailed :: event where
  "generationFailed = Toast ''Generation failed'' ''Couldn't generate content. Please try again.''"

definition generateContent ::
  "insert_outcome \<Rightarrow> (nat \<Rightarrow> insert_outcome) \<Rightarrow> world \<Rightarrow> world \<times> event list" where
  "generateContent inputResult outputResult w =
     (case selectedCard (ui w) of
        None \<Rightarrow> (w, [missingInformation])
      | Some crd \<Rightarrow>
          if platform (ui w) = [] \<or> audience (ui w) = [] \<or> language (ui w) = []
             \<or> tone (ui w) = []
          then (w, [missingInformation])
          else
            (case inputResult of
               InsertError \<Rightarrow>
                 (w\<lparr>ui := (ui w)\<lparr>isGenerating := False\<rparr>\<rparr>,
                  [inputRequest crd (ui w), generationFailed])
             | Inserted iid \<Rightarrow>
                 (let contents = mockContent crd (ui w);
                      rows = outputRows outputResult iid 0 contents;
                      db' = \<lparr>user_inputs = user_inputs (db w) @ [inputRow iid crd (ui w)],
                             ai_outputs = ai_outputs (db w) @ rows\<rparr>;
                      requests = inputRequest crd (ui w) # outputRequests iid 0 contents
                  in if allInserted outputResult (length contents)
                     then (\<lparr>ui = (ui w)\<lparr>isGenerating := False, generatedContent := rows\<rparr>,
                            db = db'\<rparr>,
                           requests)
                     else (\<lparr>ui = (ui w)\<lparr>isGenerating := False\<rparr>, db = db'\<rparr>,
                           requests @ [generationFailed]))))"

subsection \<open>Clipboard and the handlers of the page\<close>

definition copyToClipboard :: "bool \<Rightarrow> string \<Rightarrow> event list" where
  "copyToClipboard written content =
     (if written
      then [ClipboardWrite content,
            Toast ''Copied!'' ''Content copied to clipboard successfully.'']
      else [ClipboardWrite content, Toast ''Copy failed'' ''Couldn't copy to clipboard.''])"

text \<open>
  Everything the user can do on the page. A search result is picked by its position in
  the list shown. The button \<open>Generate Now\<close> is disabled while a field is missing or a
  generation runs; \<open>Regenerate\<close> is shown once there is generated content and disabled
  while a generation runs; both call \<open>generateContent\<close>. A copy button exists for each
  generated text.
\<close>

datatype action =
    TypeSearch string
  | PickCard nat
  | SetPlatform string
  | SetAudience string
  | SetLanguage string
  | SetTone string
  | SetCustomPrompt string
  | ClickGenerate
  | ClickRegenerate
  | ClickCopy nat

record outcomes =
  catalogAnswer :: catalog
  inputResult :: insert_outcome
  outputResult :: "nat \<Rightarrow> insert_outcome"
  clipboardWritten :: bool

definition generateDisabled :: "ui_state \<Rightarrow> bool" where
  "generateDisabled s =
     (selectedCard s = None \<or> platform s = [] \<or> audience s = [] \<or> language s = []
      \<or> tone s = [] \<or> isGenerating s)"

fun step :: "outcomes \<Rightarrow> action \<Rightarrow> world \<Rightarrow> world \<times> event list" where
  "step oc (TypeSearch query) w =
     (case searchCards (catalogAnswer oc) query ((ui w)\<lparr>cardSearch := query\<rparr>) of
        (s', evs) \<Rightarrow> (w\<lparr>ui := s'\<rparr>, evs))"
| "step oc (PickCard n) w =
     (if n < length (searchResults (ui w))
      then (let crd = searchResults (ui w) ! n
            in (w\<lparr>ui := (ui w)\<lparr>selectedCard := Some crd,
                  cardSearch := interpolate (card_name crd) @ '' - ''
                                @ interpolate (bank_name crd),
                  searchResults := []\<rparr>\<rparr>, []))
      else (w, []))"
| "step oc (SetPlatform v) w = (w\<lparr>ui := (ui w)\<lparr>platform := v\<rparr>\<rparr>, [])"
| "step oc (SetAudience v) w = (w\<lparr>ui := (ui w)\<lparr>audience := v\<rparr>\<rparr>, [])"
| "step oc (SetLanguage v) w = (w\<lparr>ui := (ui w)\<lparr>language := v\<rparr>\<rparr>, [])"
| "step oc (SetTone v) w = (w\<lparr>ui := (ui w)\<lparr>tone := v\<rparr>\<rparr>, [])"
| "step oc (SetCustomPrompt v) w = (w\<lparr>ui := (ui w)\<lparr>customPrompt := v\<rparr>\<rparr>, [])"
| "step oc ClickGenerate w =
     (if generateDisabled (ui w) then (w, [])
      else generateContent (inputResult oc) (outputResult oc) w)"
| "step oc ClickRegenerate w =
     (if generatedContent (ui w) = [] \<or> isGenerating (ui w) then (w, [])
      else generateContent (inputResult oc) (outputResult oc) w)"
| "step oc (ClickCopy n) w =
     (if n < length (generatedContent (ui w))
      then (w, copyToClipboard (clipboardWritten oc)
                 (content_variation (generatedContent (ui w) ! n)))
      else (w, []))"

section \<open>Observing a run\<close>

text \<open>
  Two readings of the events of a run: whether an edge function was called, and the
  texts sent to \<open>ai_outputs\<close>, in the order sent.
\<close>

fun isFunctionInvoke :: "event \<Rightarrow> bool" where
  "isFunctionInvoke (FunctionInvoke name f) = True"
| "isFunctionInvoke e = False"

definition invokesProxy :: "event list \<Rightarrow> bool" where
  "invokesProxy evs = list_ex isFunctionInvoke evs"

fun sentContents :: "event list \<Rightarrow> string list" where
  "sentContents [] = []"
| "sentContents (InsertAiOutput iid n content # evs) = content # sentContents evs"
| "sentContents (e # evs) = sentContents evs"

section \<open>Sample inputs\<close>

text \<open>A request for the card \<open>Gold\<close> of the bank \<open>HDFC\<close>, with a capitalised audience.\<close>

definition goldRequest :: fields where
  "goldRequest =
     \<lparr>cardName = Some ''Gold'', bankName = Some ''HDFC'', rq_platform = Some ''whatsapp'',
      rq_audience = Some ''Friends'', rq_language = Some ''english'',
      rq_tone = Some ''friendly'', rq_customPrompt = None\<rparr>"

text \<open>
  A generative API that answers every call with status 503, a preflight request and a
  POST request.
\<close>

definition geminiUnavailable :: "string \<Rightarrow> string \<Rightarrow> answer" where
  "geminiUnavailable key prompt = Answer 503 (BodyText ''1. Never read'')"

definition preflight :: request where
  "preflight = \<lparr>http_method = ''OPTIONS'', json = JsonBody goldRequest\<rparr>"

definition post :: request where
  "post = \<lparr>http_method = ''POST'', json = JsonBody goldRequest\<rparr>"

text \<open>
  A card, the component's initial state, a state with every field of the form set, the
  empty store, and a store that accepts every insert into \<open>ai_outputs\<close>.
\<close>

definition goldCard :: CreditCard where
  "goldCard =
     \<lparr>card_id = ''c1'', card_name = Some ''Gold Rewards'', bank_name = Some ''HDFC'',
      slug = Some ''gold-rewards'', description = None, rewards_summary = None\<rparr>"

definition initialState :: ui_state where
  "initialState =
     \<lparr>selectedCard = None, cardSearch = [], searchResults = [], isSearching = False,
      platform = [], audience = [], language = [], tone = [], customPrompt = [],
      isGenerating = False, generatedContent = []\<rparr>"

definition readyState :: ui_state where
  "readyState =
     initialState\<lparr>selectedCard := Some goldCard, platform := ''whatsapp'',
       audience := ''friends'', language := ''english'', tone := ''friendly''\<rparr>"

definition emptyDatabase :: database where
  "emptyDatabase = \<lparr>user_inputs = [], ai_outputs = []\<rparr>"

definition readyWorld :: world where
  "readyWorld = \<lparr>ui = readyState, db = emptyDatabase\<rparr>"

definition stored :: "nat \<Rightarrow> insert_outcome" where
  "stored n = Inserted (''out'' @ decimal n)"

text \<open>
  The world after one successful generation, the outcomes of a second one, and a state
  that differs from \<open>readyState\<close> in platform, language and custom prompt.
\<close>

definition generatedWorld :: world where
  "generatedWorld = fst (generateContent (Inserted ''in1'') stored readyWorld)"

definition regenerateOutcomes :: outcomes where
  "regenerateOutcomes =
     \<lparr>catalogAnswer = CatalogThrows, inputResult = Inserted ''in2'',
      outputResult = stored, clipboardWritten = True\<rparr>"

definition otherState :: ui_state where
  "otherState =
     readyState\<lparr>platform := ''instagram'', language := ''hindi'',
       customPrompt := ''Highlight lounge access.''\<rparr>"

text \<open>A catalog of two cards, and a query of a space, a tab and a no-break space.\<close>

definition sampleCatalog :: "api_card list" where
  "sampleCatalog =
     [\<lparr>api_id = ''c1'', api_card_name = Some ''Gold Rewards'', issuing_bank = Some ''HDFC'',
       api_slug = Some ''gold-rewards'', api_description = None, api_rewards_summary = None\<rparr>,
      \<lparr>api_id = ''c2'', api_card_name = Some ''Platinum Travel'', issuing_bank = None,
       api_slug = None, api_description = None, api_rewards_summary = None\<rparr>]"

definition blankQuery :: string where
  "blankQuery = [CHR '' '', CHR 0x09, CHR 0xA0]"

section \<open>The split/pad algorithm\<close>

lemma segments_length: "length (segments t) \<le> 4"
  by (simp add: segments_def)

lemma segments_nonempty: "[] \<notin> set (segments t)"
  by (auto simp: segments_def dest!: in_set_takeD)

lemma pad_fill:
  "fallback f = Inr t \<Longrightarrow> pad f vs = Inr (vs @ replicate (4 - length vs) t)"
proof (induction f vs rule: pad.induct)
  case (1 f vs)
  show ?case
  proof (cases "length vs < 4")
    case True
    then have "4 - length vs = Suc (4 - length (vs @ [t]))" by simp
    with True 1 show ?thesis
      by (subst pad.simps) (simp add: replicate_append_same)
  next
    case False
    then show ?thesis by (subst pad.simps) simp
  qed
qed

lemma variations_fill:
  assumes "fallback f = Inr t"
  shows "variations f generatedText =
           Inr (segments generatedText @ replicate (4 - length (segments generatedText)) t)"
  using segments_length [of generatedText]
  by (simp add: variations_def pad_fill [OF assms])

lemma fallback_present:
  "rq_audience f = Some a \<Longrightarrow>
   fallback f = Inr (interpolate (cardName f) @ '' from '' @ interpolate (bankName f)
                     @ '' - Great choice for '' @ toLowerCase a @ ''!'')"
  by (simp add: fallback_def)

text \<open>
  C1. For every text of the generative API and every request whose card name, bank name
  and audience are present and not empty, the split/pad algorithm does not raise and
  gives exactly four strings, none of them empty, however many numbered segments the
  text has.
\<close>

theorem variations_four_nonempty:
  assumes "cardName f = Some c" and "c \<noteq> []"
    and "bankName f = Some b" and "b \<noteq> []"
    and "rq_audience f = Some a" and "a \<noteq> []"
  shows "\<exists>vs. variations f generatedText = Inr vs \<and> length vs = 4 \<and> (\<forall>v \<in> set vs. v \<noteq> [])"
proof -
  let ?t = "interpolate (cardName f) @ '' from '' @ interpolate (bankName f)
            @ '' - Great choice for '' @ toLowerCase a @ ''!''"
  let ?vs = "segments generatedText @ replicate (4 - length (segments generatedText)) ?t"
  have eq: "variations f generatedText = Inr ?vs"
    by (rule variations_fill [OF fallback_present [OF assms(5)]])
  have len: "length ?vs = 4"
    using segments_length [of generatedText] by simp
  have "?t \<noteq> []" by simp
  then have ne: "\<forall>v \<in> set ?vs. v \<noteq> []"
    using segments_nonempty [of generatedText] by auto
  from eq len ne show ?thesis by blast
qed

theorem variations_four_nonempty_witness:
  "\<exists>vs. variations goldRequest ''1. Only one'' = Inr vs \<and> length vs = 4
        \<and> (\<forall>v \<in> set vs. v \<noteq> [])"
  using variations_four_nonempty [of goldRequest "''Gold''" "''HDFC''" "''Friends''" "''1. Only one''"]
  by (simp add: goldRequest_def)

lemma segments_example:
  "segments ''1. Great card! 2. Try it today.'' = [''Great card!'', ''Try it today.'']"
  by (simp add: segments_def split_def trim_def isDigit_def isWhiteSpace_def)

text \<open>
  C2, as amended. On the text \<open>1. Great card! 2. Try it today.\<close> the algorithm gives the
  two segments and then twice the fallback \<open><Card> from <Bank> - Great choice for
  <audience>!\<close>, where \<open><Card>\<close> and \<open><Bank>\<close> are the card name and the bank name of the
  request and \<open><audience>\<close> is its audience converted to lower case.
\<close>

theorem variations_example:
  assumes "cardName f = Some c" and "bankName f = Some b" and "rq_audience f = Some a"
  shows "variations f ''1. Great card! 2. Try it today.'' =
           Inr [''Great card!'', ''Try it today.'',
                c @ '' from '' @ b @ '' - Great choice for '' @ toLowerCase a @ ''!'',
                c @ '' from '' @ b @ '' - Great choice for '' @ toLowerCase a @ ''!'']"
  using assms
  by (simp add: variations_fill [OF fallback_present [OF assms(3)]] segments_example
      interpolate_def numeral_eq_Suc)

theorem variations_example_witness:
  "variations goldRequest ''1. Great card! 2. Try it today.'' =
     Inr [''Great card!'', ''Try it today.'',
          ''Gold from HDFC - Great choice for friends!'',
          ''Gold from HDFC - Great choice for friends!'']"
  using variations_example [of goldRequest "''Gold''" "''HDFC''" "''Friends''"]
  by (simp add: goldRequest_def toLowerCase_def toLowerCase_char_def isUpperCase_def)

text \<open>
  With the audience \<open>Friends\<close> the fallback does not carry the audience as the request
  has it.
\<close>

theorem variations_example_counterexample:
  "variations goldRequest ''1. Great card! 2. Try it today.'' \<noteq>
     Inr [''Great card!'', ''Try it today.'',
          ''Gold from HDFC - Great choice for Friends!'',
          ''Gold from HDFC - Great choice for Friends!'']"
proof -
  have "rq_audience goldRequest = Some ''Friends''"
    by (simp add: goldRequest_def)
  from variations_fill [OF fallback_present [OF this]] show ?thesis
    by (simp add: segments_example goldRequest_def interpolate_def numeral_eq_Suc
        toLowerCase_def toLowerCase_char_def isUpperCase_def)
qed

section \<open>The proxy's failures\<close>

lemma handler_no_key:
  "\<not> truthy geminiApiKey \<Longrightarrow> \<exists>e. handler geminiApiKey gemini req = Inl e"
  by (cases "json req") (simp_all add: handler_def)

lemma handler_not_ok:
  assumes "\<forall>f. json req = JsonBody f \<longrightarrow>
             (\<exists>st b. gemini (interpolate geminiApiKey) (prompt_of f) = Answer st b \<and> \<not> ok st)"
  shows "\<exists>e. handler geminiApiKey gemini req = Inl e"
proof (cases "json req")
  case (JsonThrows e)
  then show ?thesis by (simp add: handler_def)
next
  case (JsonBody f)
  with assms obtain st b where
    "gemini (interpolate geminiApiKey) (prompt_of f) = Answer st b" and "\<not> ok st"
    by blast
  with JsonBody show ?thesis by (simp add: handler_def)
qed

lemma serve_error:
  "http_method req \<noteq> ''OPTIONS'' \<Longrightarrow> handler geminiApiKey gemini req = Inl e \<Longrightarrow>
   serve geminiApiKey gemini req =
     \<lparr>status = 500, headers = corsHeaders @ [(''Content-Type'', ''application/json'')],
      body = ErrorBody e\<rparr>"
  by (simp add: serve_def)

text \<open>
  C3, as amended. For every request whose method is not \<open>OPTIONS\<close>: if the credential is
  absent (not set, or empty), or the generative API answers the handler's call with a
  status outside 200 to 299, the response has status 500 and a body of the shape
  \<open>{error: message}\<close>; it carries no variations.
\<close>

theorem serve_fails_closed:
  assumes "http_method req \<noteq> ''OPTIONS''"
    and "\<not> truthy geminiApiKey \<or>
         (\<forall>f. json req = JsonBody f \<longrightarrow>
            (\<exists>st b. gemini (interpolate geminiApiKey) (prompt_of f) = Answer st b \<and> \<not> ok st))"
  shows "\<exists>e. serve geminiApiKey gemini req =
           \<lparr>status = 500, headers = corsHeaders @ [(''Content-Type'', ''application/json'')],
            body = ErrorBody e\<rparr>"
proof -
  from assms(2) have "\<exists>e. handler geminiApiKey gemini req = Inl e"
    using handler_no_key handler_not_ok by blast
  then obtain e where "handler geminiApiKey gemini req = Inl e" ..
  from serve_error [OF assms(1) this] show ?thesis ..
qed

theorem serve_fails_closed_witness:
  "\<exists>e. serve (Some ''key'') geminiUnavailable post =
     \<lparr>status = 500, headers = corsHeaders @ [(''Content-Type'', ''application/json'')],
      body = ErrorBody e\<rparr>"
  using serve_fails_closed [of post "Some ''key''" geminiUnavailable]
  by (simp add: post_def geminiUnavailable_def ok_def)

text \<open>
  A preflight request is answered with status 200 and no body before the credential is
  looked at.
\<close>

theorem serve_preflight_counterexample:
  "serve None geminiUnavailable preflight =
     \<lparr>status = 200, headers = corsHeaders, body = NoBody\<rparr>"
  by (simp add: serve_def preflight_def)

section \<open>Card search\<close>

lemma includes_str_sublist: "includes_str s t \<longleftrightarrow> sublist t s"
  by (induction s) (simp_all add: sublist_Cons_right)

lemma fieldIncludes_iff:
  "fieldIncludes v query \<longleftrightarrow> (\<exists>n. v = Some n \<and> sublist (toLowerCase query) (toLowerCase n))"
  by (cases v) (simp_all add: fieldIncludes_def includes_str_sublist)

lemma filteredCards_length: "length (filteredCards query d) \<le> 5"
  by (cases d) (simp_all add: filteredCards_def)

lemma filteredCards_match: "c \<in> set (filteredCards query d) \<Longrightarrow> cardMatches query c"
  by (cases d) (auto simp: filteredCards_def dest: in_set_takeD)

text \<open>
  C5. For every query that is not empty and every answer of the catalog, the search
  leaves at most five results, and each of them has the query, in lower case, as a
  contiguous part of its card name or of its bank name, in lower case.
\<close>

theorem searchCards_results:
  assumes "query \<noteq> []"
  shows "length (searchResults (fst (searchCards (CatalogData d) query s))) \<le> 5
    \<and> (\<forall>r \<in> set (searchResults (fst (searchCards (CatalogData d) query s))).
          (\<exists>n. card_name r = Some n \<and> sublist (toLowerCase query) (toLowerCase n))
        \<or> (\<exists>n. bank_name r = Some n \<and> sublist (toLowerCase query) (toLowerCase n)))"
proof (cases "trim query = []")
  case True
  then show ?thesis by (simp add: searchCards_def)
next
  case False
  then have res: "searchResults (fst (searchCards (CatalogData d) query s))
                  = map toCreditCard (filteredCards query d)"
    by (simp add: searchCards_def)
  have "\<And>c. c \<in> set (filteredCards query d) \<Longrightarrow>
          fieldIncludes (card_name (toCreditCard c)) query
          \<or> fieldIncludes (bank_name (toCreditCard c)) query"
    using filteredCards_match by (fastforce simp: cardMatches_def toCreditCard_def)
  then show ?thesis
    unfolding res using filteredCards_length [of query d]
    by (auto simp: fieldIncludes_iff)
qed

theorem searchCards_results_witness:
  "''GOLD'' \<noteq> []
   \<and> length (searchResults (fst (searchCards (CatalogData (Some sampleCatalog)) ''GOLD'' initialState))) \<le> 5
   \<and> searchResults (fst (searchCards (CatalogData (Some sampleCatalog)) ''GOLD'' initialState)) = [goldCard]"
  using searchCards_results [of "''GOLD''" "Some sampleCatalog" initialState]
  by (simp add: searchCards_def trim_def isWhiteSpace_def filteredCards_def cardMatches_def
      fieldIncludes_def sampleCatalog_def toLowerCase_def toLowerCase_char_def isUpperCase_def
      toCreditCard_def goldCard_def)

text \<open>
  C6. For the empty query the search sets the results to the empty list and does
  nothing else: no request to the catalog, no notice.
\<close>

theorem searchCards_empty:
  "searchCards cat [] s = (s\<lparr>searchResults := []\<rparr>, [])"
  by (simp add: searchCards_def trim_def)

theorem searchCards_empty_witness:
  "searchCards CatalogThrows [] initialState = (initialState\<lparr>searchResults := []\<rparr>, [])"
  by (rule searchCards_empty)

lemma trim_blank: "\<forall>c \<in> set s. isWhiteSpace c \<Longrightarrow> trim s = []"
proof -
  assume "\<forall>c \<in> set s. isWhiteSpace c"
  then have blank: "dropWhile isWhiteSpace s = []" by (induction s) simp_all
  show ?thesis by (simp add: trim_def blank)
qed

text \<open>
  C9. A query made of white space only is treated exactly as the empty query: the
  results are set to the empty list and no request is sent.
\<close>

theorem searchCards_blank:
  assumes "\<forall>c \<in> set query. isWhiteSpace c"
  shows "searchCards cat query s = searchCards cat [] s
         \<and> searchCards cat query s = (s\<lparr>searchResults := []\<rparr>, [])"
  using trim_blank [OF assms] by (simp add: searchCards_def trim_def)

theorem searchCards_blank_witness:
  "searchCards CatalogThrows blankQuery initialState = searchCards CatalogThrows [] initialState
   \<and> searchCards CatalogThrows blankQuery initialState = (initialState\<lparr>searchResults := []\<rparr>, [])"
proof -
  have "\<forall>c \<in> set blankQuery. isWhiteSpace c"
    by (simp add: blankQuery_def isWhiteSpace_def)
  then show ?thesis by (rule searchCards_blank)
qed

section \<open>Generation\<close>

text \<open>
  C4. When no card is selected, or one of platform, audience, language and tone is the
  empty string, \<open>generateContent\<close> shows the notice \<open>Missing information\<close> and does
  nothing else: the state and the store are unchanged and no request is sent.
\<close>

theorem generateContent_blocked:
  assumes "selectedCard (ui w) = None \<or> platform (ui w) = [] \<or> audience (ui w) = []
           \<or> language (ui w) = [] \<or> tone (ui w) = []"
  shows "generateContent inRes outRes w = (w, [missingInformation])"
  using assms by (auto simp: generateContent_def split: option.splits)

theorem generateContent_blocked_witness:
  "generateContent (Inserted ''in1'') stored \<lparr>ui = readyState\<lparr>tone := []\<rparr>, db = emptyDatabase\<rparr>
   = (\<lparr>ui = readyState\<lparr>tone := []\<rparr>, db = emptyDatabase\<rparr>, [missingInformation])"
  using generateContent_blocked [of "\<lparr>ui = readyState\<lparr>tone := []\<rparr>, db = emptyDatabase\<rparr>" "Inserted ''in1''" stored]
  by simp

lemma sentContents_append: "sentContents (xs @ ys) = sentContents xs @ sentContents ys"
  by (induction xs rule: sentContents.induct) simp_all

lemma sentContents_outputRequests: "sentContents (outputRequests iid k cs) = cs"
  by (induction cs arbitrary: k) simp_all

lemma invokesProxy_outputRequests: "\<not> list_ex isFunctionInvoke (outputRequests iid k cs)"
  by (induction cs arbitrary: k) simp_all

lemma generateContent_events:
  assumes "selectedCard (ui w) = Some crd"
    and "platform (ui w) \<noteq> []" and "audience (ui w) \<noteq> []"
    and "language (ui w) \<noteq> []" and "tone (ui w) \<noteq> []"
  shows "snd (generateContent (Inserted iid) outRes w) =
           inputRequest crd (ui w) # outputRequests iid 0 (mockContent crd (ui w))
           @ (if allInserted outRes (length (mockContent crd (ui w))) then []
              else [generationFailed])"
  using assms by (simp add: generateContent_def Let_def)

lemma generateContent_displayed:
  assumes "selectedCard (ui w) = Some crd"
    and "platform (ui w) \<noteq> []" and "audience (ui w) \<noteq> []"
    and "language (ui w) \<noteq> []" and "tone (ui w) \<noteq> []"
    and "allInserted outRes (length (mockContent crd (ui w)))"
  shows "generatedContent (ui (fst (generateContent (Inserted iid) outRes w))) =
           outputRows outRes iid 0 (mockContent crd (ui w))"
  using assms by (simp add: generateContent_def Let_def)

lemma generateContent_db:
  assumes "selectedCard (ui w) = Some crd"
    and "platform (ui w) \<noteq> []" and "audience (ui w) \<noteq> []"
    and "language (ui w) \<noteq> []" and "tone (ui w) \<noteq> []"
  shows "db (fst (generateContent (Inserted iid) outRes w)) =
           \<lparr>user_inputs = user_inputs (db w) @ [inputRow iid crd (ui w)],
            ai_outputs = ai_outputs (db w) @ outputRows outRes iid 0 (mockContent crd (ui w))\<rparr>"
  using assms by (simp add: generateContent_def Let_def)

lemma outputRows_all:
  "\<forall>k \<in> {Suc i..i + length cs}. outRes k \<noteq> InsertError \<Longrightarrow>
   map content_variation (outputRows outRes iid i cs) = cs
   \<and> map variation_number (outputRows outRes iid i cs) = [Suc i..<Suc (i + length cs)]
   \<and> map input_id (outputRows outRes iid i cs) = replicate (length cs) iid"
proof (induction cs arbitrary: i)
  case Nil
  then show ?case by simp
next
  case (Cons c cs)
  from Cons.prems have here: "outRes (Suc i) \<noteq> InsertError" by simp
  from Cons.prems have "\<forall>k \<in> {Suc (Suc i)..Suc i + length cs}. outRes k \<noteq> InsertError"
    by simp
  from Cons.IH [OF this] here show ?case
    by (cases "outRes (Suc i)") (simp_all del: upt_Suc add: upt_conv_Cons)
qed

lemma mockContent_length: "length (mockContent crd s) = 4"
  by (simp add: mockContent_def)

lemma generatedWorld_ui:
  "ui generatedWorld = readyState\<lparr>generatedContent := outputRows stored ''in1'' 0 (mockContent goldCard readyState)\<rparr>"
  by (simp add: generatedWorld_def generateContent_def readyWorld_def readyState_def
      initialState_def Let_def allInserted_def stored_def mockContent_length)

text \<open>
  C7, as amended. In every run of \<open>generateContent\<close> that reaches the content step (the
  form is complete and the input row was stored), no edge function is called; the four
  texts sent to \<open>ai_outputs\<close> are the ones composed in the client, and when all four
  inserts succeed these are the texts displayed.
\<close>

theorem generateContent_composes_locally:
  assumes "selectedCard (ui w) = Some crd"
    and "platform (ui w) \<noteq> []" and "audience (ui w) \<noteq> []"
    and "language (ui w) \<noteq> []" and "tone (ui w) \<noteq> []"
  shows "\<not> invokesProxy (snd (generateContent (Inserted iid) outRes w))
    \<and> sentContents (snd (generateContent (Inserted iid) outRes w)) = mockContent crd (ui w)
    \<and> (allInserted outRes 4 \<longrightarrow>
         map content_variation (generatedContent (ui (fst (generateContent (Inserted iid) outRes w))))
         = mockContent crd (ui w))"
proof -
  note ev = generateContent_events [OF assms, of iid outRes]
  have a: "\<not> invokesProxy (snd (generateContent (Inserted iid) outRes w))"
    unfolding ev
    by (simp add: invokesProxy_def inputRequest_def generationFailed_def
        invokesProxy_outputRequests)
  have b: "sentContents (snd (generateContent (Inserted iid) outRes w)) = mockContent crd (ui w)"
    unfolding ev
    by (simp add: inputRequest_def generationFailed_def sentContents_append
        sentContents_outputRequests)
  have c: "map content_variation (generatedContent (ui (fst (generateContent (Inserted iid) outRes w))))
         = mockContent crd (ui w)" if all: "allInserted outRes 4"
  proof -
    from all have all': "allInserted outRes (length (mockContent crd (ui w)))"
      by (simp add: mockContent_length)
    then have "\<forall>k \<in> {Suc 0..0 + length (mockContent crd (ui w))}. outRes k \<noteq> InsertError"
      by (simp add: allInserted_def)
    from outputRows_all [OF this, of iid] show ?thesis
      by (simp add: generateContent_displayed [OF assms all'])
  qed
  from a b c show ?thesis by blast
qed

theorem generateContent_composes_locally_witness:
  "\<not> invokesProxy (snd (generateContent (Inserted ''in2'') stored generatedWorld))
   \<and> sentContents (snd (generateContent (Inserted ''in2'') stored generatedWorld))
     = mockContent goldCard (ui generatedWorld)"
proof -
  have sel: "selectedCard (ui generatedWorld) = Some goldCard"
    and p: "platform (ui generatedWorld) \<noteq> []" and a: "audience (ui generatedWorld) \<noteq> []"
    and l: "language (ui generatedWorld) \<noteq> []" and t: "tone (ui generatedWorld) \<noteq> []"
    by (simp_all add: generatedWorld_ui readyState_def initialState_def)
  from generateContent_composes_locally [OF sel p a l t, of "''in2''" stored]
  show ?thesis by simp
qed

text \<open>
  A run that reaches the content step and stores and displays four texts without any
  call of the proxy.
\<close>

theorem generateContent_composes_locally_counterexample:
  "\<not> invokesProxy (snd (generateContent (Inserted ''in1'') stored readyWorld))
   \<and> map content_variation
        (generatedContent (ui (fst (generateContent (Inserted ''in1'') stored readyWorld))))
     = mockContent goldCard readyState"
proof -
  have sel: "selectedCard (ui readyWorld) = Some goldCard"
    and p: "platform (ui readyWorld) \<noteq> []" and a: "audience (ui readyWorld) \<noteq> []"
    and l: "language (ui readyWorld) \<noteq> []" and t: "tone (ui readyWorld) \<noteq> []"
    by (simp_all add: readyWorld_def readyState_def initialState_def)
  have u: "ui readyWorld = readyState" by (simp add: readyWorld_def)
  have all: "allInserted stored (length (mockContent goldCard (ui readyWorld)))"
    by (simp add: allInserted_def stored_def)
  then have "\<forall>k \<in> {Suc 0..0 + length (mockContent goldCard (ui readyWorld))}. stored k \<noteq> InsertError"
    by (simp add: allInserted_def)
  from outputRows_all [OF this, of "''in1''"]
  have "map content_variation
        (generatedContent (ui (fst (generateContent (Inserted ''in1'') stored readyWorld))))
     = mockContent goldCard readyState"
    by (simp add: generateContent_displayed [OF sel p a l t all] u)
  moreover have "\<not> invokesProxy (snd (generateContent (Inserted ''in1'') stored readyWorld))"
    unfolding generateContent_events [OF sel p a l t]
    by (simp add: invokesProxy_def inputRequest_def generationFailed_def
        invokesProxy_outputRequests)
  ultimately show ?thesis by simp
qed

lemma generateContent_keeps:
  "prefix (user_inputs (db w)) (user_inputs (db (fst (generateContent inRes outRes w))))
   \<and> prefix (ai_outputs (db w)) (ai_outputs (db (fst (generateContent inRes outRes w))))"
  by (simp add: generateContent_def Let_def split: option.split insert_outcome.split)

lemma step_keeps:
  "prefix (user_inputs (db w)) (user_inputs (db (fst (step oc a w))))
   \<and> prefix (ai_outputs (db w)) (ai_outputs (db (fst (step oc a w))))"
proof (cases a)
  case ClickGenerate
  then show ?thesis using generateContent_keeps by simp
next
  case ClickRegenerate
  then show ?thesis using generateContent_keeps by simp
qed (simp_all add: Let_def split: prod.split)

text \<open>
  C8. A regeneration that succeeds adds one row to \<open>user_inputs\<close>, with the field values
  of the form, and four rows to \<open>ai_outputs\<close>, numbered 1 to 4, whose \<open>input_id\<close> is the
  identifier of that new row. No operation of the page changes or removes a row that
  is already stored: the tables before a step are prefixes of the tables after it.
\<close>

theorem regenerate_appends:
  assumes "selectedCard (ui w) = Some crd"
    and "platform (ui w) \<noteq> []" and "audience (ui w) \<noteq> []"
    and "language (ui w) \<noteq> []" and "tone (ui w) \<noteq> []"
    and "generatedContent (ui w) \<noteq> []" and "\<not> isGenerating (ui w)"
    and "inputResult oc = Inserted iid"
    and "\<forall>k \<in> {1..4}. outputResult oc k \<noteq> InsertError"
  shows "(\<exists>rows.
           db (fst (step oc ClickRegenerate w)) =
             \<lparr>user_inputs = user_inputs (db w) @ [inputRow iid crd (ui w)],
              ai_outputs = ai_outputs (db w) @ rows\<rparr>
           \<and> map variation_number rows = [1, 2, 3, 4]
           \<and> (\<forall>r \<in> set rows. input_id r = in_id (inputRow iid crd (ui w))))
    \<and> (\<forall>oc' a w'.
          prefix (user_inputs (db w')) (user_inputs (db (fst (step oc' a w'))))
          \<and> prefix (ai_outputs (db w')) (ai_outputs (db (fst (step oc' a w')))))"
proof -
  let ?rows = "outputRows (outputResult oc) iid 0 (mockContent crd (ui w))"
  have run: "step oc ClickRegenerate w = generateContent (Inserted iid) (outputResult oc) w"
    using assms(6-8) by simp
  have d: "db (fst (step oc ClickRegenerate w)) =
             \<lparr>user_inputs = user_inputs (db w) @ [inputRow iid crd (ui w)],
              ai_outputs = ai_outputs (db w) @ ?rows\<rparr>"
    unfolding run by (rule generateContent_db [OF assms(1-5)])
  from assms(9)
  have "\<forall>k \<in> {Suc 0..0 + length (mockContent crd (ui w))}. outputResult oc k \<noteq> InsertError"
    by (simp add: mockContent_length)
  from outputRows_all [OF this, of iid]
  have n: "map variation_number ?rows = [1, 2, 3, 4]"
    and i: "map input_id ?rows = replicate 4 iid"
    by (simp_all add: mockContent_length upt_conv_Cons del: upt_Suc)
  have "\<forall>r \<in> set ?rows. input_id r = iid"
  proof
    fix r assume "r \<in> set ?rows"
    then have "input_id r \<in> set (map input_id ?rows)" by simp
    then show "input_id r = iid" unfolding i by simp
  qed
  then have "\<forall>r \<in> set ?rows. input_id r = in_id (inputRow iid crd (ui w))"
    by (simp add: inputRow_def)
  with d n have appended:
    "\<exists>rows.
       db (fst (step oc ClickRegenerate w)) =
         \<lparr>user_inputs = user_inputs (db w) @ [inputRow iid crd (ui w)],
          ai_outputs = ai_outputs (db w) @ rows\<rparr>
       \<and> map variation_number rows = [1, 2, 3, 4]
       \<and> (\<forall>r \<in> set rows. input_id r = in_id (inputRow iid crd (ui w)))"
    by (intro exI [of _ ?rows] conjI)
  show ?thesis
    by (intro conjI allI appended) (simp_all add: step_keeps)
qed

theorem regenerate_appends_witness:
  "\<exists>rows.
     db (fst (step regenerateOutcomes ClickRegenerate generatedWorld)) =
       \<lparr>user_inputs = user_inputs (db generatedWorld) @ [inputRow ''in2'' goldCard (ui generatedWorld)],
        ai_outputs = ai_outputs (db generatedWorld) @ rows\<rparr>
     \<and> map variation_number rows = [1, 2, 3, 4]"
proof -
  have sel: "selectedCard (ui generatedWorld) = Some goldCard"
    and p: "platform (ui generatedWorld) \<noteq> []" and a: "audience (ui generatedWorld) \<noteq> []"
    and l: "language (ui generatedWorld) \<noteq> []" and t: "tone (ui generatedWorld) \<noteq> []"
    and g: "generatedContent (ui generatedWorld) \<noteq> []"
    and n: "\<not> isGenerating (ui generatedWorld)"
    by (simp_all add: generatedWorld_ui readyState_def initialState_def mockContent_def
        stored_def)
  have i: "inputResult regenerateOutcomes = Inserted ''in2''"
    and r: "\<forall>k \<in> {1..4}. outputResult regenerateOutcomes k \<noteq> InsertError"
    by (simp_all add: regenerateOutcomes_def stored_def)
  from conjunct1 [OF regenerate_appends [OF sel p a l t g n i r]]
  obtain rows where
    "db (fst (step regenerateOutcomes ClickRegenerate generatedWorld)) =
       \<lparr>user_inputs = user_inputs (db generatedWorld) @ [inputRow ''in2'' goldCard (ui generatedWorld)],
        ai_outputs = ai_outputs (db generatedWorld) @ rows\<rparr>"
    and "map variation_number rows = [1, 2, 3, 4]"
    by (elim exE conjE)
  then show ?thesis by (intro exI [of _ rows] conjI)
qed

text \<open>
  C10. The texts composed in the client depend on the card's name and bank name, the
  audience and the tone only: two runs that agree on these four compose, and send to
  the store, the same four texts, whatever their platform, language and custom prompt.
\<close>

theorem mockContent_depends:
  assumes "selectedCard (ui w1) = Some c1" and "selectedCard (ui w2) = Some c2"
    and "platform (ui w1) \<noteq> []" and "language (ui w1) \<noteq> []"
    and "platform (ui w2) \<noteq> []" and "language (ui w2) \<noteq> []"
    and "card_name c1 = card_name c2" and "bank_name c1 = bank_name c2"
    and "audience (ui w1) = audience (ui w2)" and "audience (ui w1) \<noteq> []"
    and "tone (ui w1) = tone (ui w2)" and "tone (ui w1) \<noteq> []"
  shows "mockContent c1 (ui w1) = mockContent c2 (ui w2)
    \<and> sentContents (snd (generateContent (Inserted iid1) outRes1 w1))
      = sentContents (snd (generateContent (Inserted iid2) outRes2 w2))"
proof -
  have m: "mockContent c1 (ui w1) = mockContent c2 (ui w2)"
    using assms(7-9,11) by (simp add: mockContent_def)
  have "sentContents (snd (generateContent (Inserted iid1) outRes1 w1)) = mockContent c1 (ui w1)"
    using assms
    by (simp add: generateContent_events inputRequest_def generationFailed_def
        sentContents_append sentContents_outputRequests)
  moreover
  have "sentContents (snd (generateContent (Inserted iid2) outRes2 w2)) = mockContent c2 (ui w2)"
    using assms
    by (simp add: generateContent_events inputRequest_def generationFailed_def
        sentContents_append sentContents_outputRequests)
  ultimately show ?thesis using m by simp
qed

theorem mockContent_depends_witness:
  "mockContent goldCard readyState = mockContent goldCard otherState
   \<and> sentContents (snd (generateContent (Inserted ''in1'') stored readyWorld))
     = sentContents (snd (generateContent (Inserted ''in2'') stored \<lparr>ui = otherState, db = emptyDatabase\<rparr>))"
  using mockContent_depends [of readyWorld goldCard "\<lparr>ui = otherState, db = emptyDatabase\<rparr>" goldCard
      "''in1''" stored "''in2''" stored]
  by (simp add: readyWorld_def otherState_def readyState_def initialState_def)

end
